theory Spec2Isabelle
  imports Complex_Main "HOL-Library.Sublist"
begin

section \<open>The document store\<close>

text \<open>
  The handlers of the API talk to a document store through Mongoose models. A collection
  is modelled as the list of its documents in natural order, each document a pair of its
  \<open>_id\<close> and its fields. An \<open>_id\<close> is an ObjectId, a 12-byte value, read here as a
  natural number. Request parameters and JSON bodies carry ids as text; the store casts
  the text to an ObjectId and throws a CastError when it cannot. The cast belongs to the
  library, so every handler takes it as the parameter \<open>castObjectId\<close>.
\<close>

type_synonym objectId = nat

type_synonym 'a collection = "(objectId \<times> 'a) list"

text \<open>Exceptions that reach a handler's \<open>catch\<close> block.\<close>

datatype err =
    CastError string
  | ValidationError
  | TypeError
  | SyntaxError
  | StoreError
  | MongooseError

text \<open>
  A JSON response: the HTTP status and the body. \<open>Message m\<close> is \<open>{message: m}\<close>,
  \<open>MessageError m e\<close> is \<open>{message: m, error: e.message}\<close>, \<open>Errors es\<close> is
  \<open>{errors: es}\<close> and \<open>Json d\<close> is the document or object \<open>d\<close> itself.
\<close>

datatype 'd body =
    Message string
  | MessageError string err
  | Errors "string list"
  | Json 'd

datatype 'd reply = Reply nat "'d body"


text \<open>
  \<open>Model.findById(id)\<close>: an undefined id matches nothing, an id that does not cast
  throws, otherwise the document with that \<open>_id\<close> or null.
\<close>

definition findById ::
  "(string \<Rightarrow> objectId option) \<Rightarrow> 'a collection \<Rightarrow> string option \<Rightarrow> err + (objectId \<times> 'a) option"
where
  "findById castObjectId docs idText =
     (case idText of
        None \<Rightarrow> Inr None
      | Some s \<Rightarrow>
          (case castObjectId s of
             None \<Rightarrow> Inl (CastError s)
           | Some k \<Rightarrow> Inr (find (\<lambda>d. fst d = k) docs)))"

text \<open>Removing, and replacing, the first document that carries a given \<open>_id\<close>.\<close>

fun delete_doc :: "objectId \<Rightarrow> 'a collection \<Rightarrow> 'a collection" where
  "delete_doc k [] = []"
| "delete_doc k (d # ds) = (if fst d = k then ds else d # delete_doc k ds)"

fun update_doc :: "objectId \<Rightarrow> ('a \<Rightarrow> 'a) \<Rightarrow> 'a collection \<Rightarrow> 'a collection" where
  "update_doc k f [] = []"
| "update_doc k f (d # ds) =
     (if fst d = k then (k, f (snd d)) # ds else d # update_doc k f ds)"

text \<open>
  \<open>Model.findByIdAndDelete(id)\<close>: the deleted document (or null) and the collection
  afterwards.
\<close>

definition findByIdAndDelete ::
  "(string \<Rightarrow> objectId option) \<Rightarrow> 'a collection \<Rightarrow> string
     \<Rightarrow> err + ((objectId \<times> 'a) option \<times> 'a collection)"
where
  "findByIdAndDelete castObjectId docs s =
     (case castObjectId s of
        None \<Rightarrow> Inl (CastError s)
      | Some k \<Rightarrow>
          (case find (\<lambda>d. fst d = k) docs of
             None \<Rightarrow> Inr (None, docs)
           | Some d \<Rightarrow> Inr (Some d, delete_doc k docs)))"

text \<open>
  \<open>Model.findByIdAndUpdate(id, update, {new: true})\<close>: the document after the update
  (or null) and the collection afterwards. Validators do not run on this path.
\<close>

definition findByIdAndUpdate ::
  "(string \<Rightarrow> objectId option) \<Rightarrow> 'a collection \<Rightarrow> string \<Rightarrow> ('a \<Rightarrow> 'a)
     \<Rightarrow> err + ((objectId \<times> 'a) option \<times> 'a collection)"
where
  "findByIdAndUpdate castObjectId docs s f =
     (case castObjectId s of
        None \<Rightarrow> Inl (CastError s)
      | Some k \<Rightarrow>
          (case find (\<lambda>d. fst d = k) docs of
             None \<Rightarrow> Inr (None, docs)
           | Some d \<Rightarrow> Inr (Some (k, f (snd d)), update_doc k f docs)))"

text \<open>
  A cast for examples: the 24 hexadecimal digits of an ObjectId, read as a number.
\<close>

definition hexDigit :: "char \<Rightarrow> nat option" where
  "hexDigit c =
     (let n = (of_char c :: nat) in
      if 48 \<le> n \<and> n \<le> 57 then Some (n - 48)
      else if 97 \<le> n \<and> n \<le> 102 then Some (n - 87)
      else if 65 \<le> n \<and> n \<le> 70 then Some (n - 55)
      else None)"

fun hexValue :: "nat \<Rightarrow> string \<Rightarrow> nat option" where
  "hexValue acc [] = Some acc"
| "hexValue acc (c # cs) =
     (case hexDigit c of None \<Rightarrow> None | Some v \<Rightarrow> hexValue (16 * acc + v) cs)"

definition castHex24 :: "string \<Rightarrow> objectId option" where
  "castHex24 s = (if length s = 24 then hexValue 0 s else None)"

text \<open>
  The routes written as ES modules import statics of a model as bare names:
  \<^verbatim>\<open>
  import { findById } from "../models/Product";          // routes/clientOrdersRoutes.js
  import User, { findOne } from "../models/User";        // the auth routes
  \<close>
  A model file exports the model and nothing else (\<open>module.exports = mongoose.model(...)\<close>
  in \<open>models/Client.js\<close> and \<open>models/Order.js\<close>), so such a name is the model's static
  function taken without its model. Called bare it has no model as \<open>this\<close> and throws
  before it reaches the collection it would have searched; the exception lands in the
  handler's \<open>catch\<close>. The Product and User models are not among the sources and are
  taken to export as the other two do.
\<close>

definition bare_findById :: "'a collection \<Rightarrow> string \<Rightarrow> err + (objectId \<times> 'a) option" where
  "bare_findById docs i = Inl MongooseError"

definition bare_findOne :: "'a collection \<Rightarrow> string \<Rightarrow> err + (objectId \<times> 'a) option" where
  "bare_findOne docs e = Inl MongooseError"

section \<open>Clients\<close>

record client =
  name :: string
  email :: string

text \<open>
  \<open>GET /clients/:id\<close>:
  \<^verbatim>\<open>
  try {
      const client = await Client.findById(req.params.id).select("-__v");
      if (!client) return res.status(404).json({ message: "Client not found" });
      res.json({ id: client._id.toString(), name: client.name, email: client.email });
  } catch (err) {
      res.status(400).json({ message: "Invalid ID format" });
  }
  \<close>
\<close>

definition clients_get_by_id ::
  "(string \<Rightarrow> objectId option) \<Rightarrow> client collection \<Rightarrow> string \<Rightarrow> (objectId \<times> client) reply"
where
  "clients_get_by_id castObjectId clients i =
     (case findById castObjectId clients (Some i) of
        Inl e \<Rightarrow> Reply 400 (Message ''Invalid ID format'')
      | Inr None \<Rightarrow> Reply 404 (Message ''Client not found'')
      | Inr (Some c) \<Rightarrow> Reply 200 (Json c))"

text \<open>
  \<open>DELETE /clients/:id\<close>:
  \<^verbatim>\<open>
  try {
      const deletedClient = await Client.findByIdAndDelete(req.params.id);
      if (!deletedClient) {
          return res.status(404).json({ message: "Client not found" });
      }
      res.json({ message: "Client deleted successfully" });
  } catch (err) {
      res.status(400).json({ message: "Invalid ID format" });
  }
  \<close>
  The result is the response and the collection afterwards.
\<close>

definition clients_delete ::
  "(string \<Rightarrow> objectId option) \<Rightarrow> client collection \<Rightarrow> string \<Rightarrow> unit reply \<times> client collection"
where
  "clients_delete castObjectId clients i =
     (case findByIdAndDelete castObjectId clients i of
        Inl e \<Rightarrow> (Reply 400 (Message ''Invalid ID format''), clients)
      | Inr (None, clients') \<Rightarrow> (Reply 404 (Message ''Client not found''), clients')
      | Inr (Some d, clients') \<Rightarrow> (Reply 200 (Message ''Client deleted successfully''), clients'))"

text \<open>
  \<open>GET /clients\<close>, the paginated list:
  \<^verbatim>\<open>
  try {
      let { page = 1, limit = 10, name, email } = req.query;
      page = parseInt(page);
      limit = parseInt(limit);
      let query = {};
      if (name) query.name = new RegExp(name, "i");
      if (email) query.email = new RegExp(email, "i");
      const total = await Client.countDocuments(query);
      const clients = await Client.find(query)
          .skip((page - 1) * limit)
          .limit(limit)
          .select("-__v");
      const formattedClients = clients.map(client => ({ ... }));
      res.json({ total, page, limit, totalPages: Math.ceil(total / limit), data: formattedClients });
  } catch (err) {
      res.status(500).json({ message: "Error fetching clients", error: err.message });
  }
  \<close>
  For \<open>page\<close> and \<open>limit\<close> the query holds what \<open>parseInt\<close> reads from the parameter's
  text: an integer, or \<open>None\<close> for NaN; a parameter that is absent is \<open>None\<close> one level
  up and gets its default.
\<close>

type_synonym parsedInt = "int option"

record listQuery =
  q_page :: "parsedInt option"
  q_limit :: "parsedInt option"
  q_name :: "string option"
  q_email :: "string option"

text \<open>What \<open>Math.ceil(total / limit)\<close> can be for a count and a parsed integer.\<close>

datatype jsnum = NaN | Infinity | Num int

record 'a listResult =
  r_total :: nat
  r_page :: parsedInt
  r_limit :: parsedInt
  r_totalPages :: jsnum
  r_data :: "'a list"

definition page_of :: "listQuery \<Rightarrow> parsedInt" where
  "page_of q = (case q_page q of None \<Rightarrow> Some 1 | Some v \<Rightarrow> v)"

definition limit_of :: "listQuery \<Rightarrow> parsedInt" where
  "limit_of q = (case q_limit q of None \<Rightarrow> Some 10 | Some v \<Rightarrow> v)"

text \<open>\<open>(page - 1) * limit\<close>: NaN as soon as one of the two is.\<close>

definition skip_of :: "parsedInt \<Rightarrow> parsedInt \<Rightarrow> parsedInt" where
  "skip_of page limit =
     (case page of
        None \<Rightarrow> None
      | Some p \<Rightarrow> (case limit of None \<Rightarrow> None | Some l \<Rightarrow> Some ((p - 1) * l)))"

definition Math_ceil_div :: "nat \<Rightarrow> parsedInt \<Rightarrow> jsnum" where
  "Math_ceil_div n limit =
     (case limit of
        None \<Rightarrow> NaN
      | Some l \<Rightarrow>
          if l = 0 then (if n = 0 then NaN else Infinity)
          else Num \<lceil>rat_of_nat n / rat_of_int l\<rceil>)"

text \<open>
  One filter of the query: \<open>if (name) query.name = new RegExp(name, "i")\<close>. An absent or
  empty parameter sets no filter. \<open>RegExp_i\<close> is the language's constructor with the
  flag \<open>i\<close>: \<open>None\<close> when the pattern is not a regular expression (a SyntaxError),
  otherwise the test the expression performs on a string.
\<close>

definition field_filter ::
  "(string \<Rightarrow> (string \<Rightarrow> bool) option) \<Rightarrow> string option \<Rightarrow> err + (string \<Rightarrow> bool)"
where
  "field_filter RegExp_i param =
     (case param of
        None \<Rightarrow> Inr (\<lambda>s. True)
      | Some pat \<Rightarrow>
          if pat = [] then Inr (\<lambda>s. True)
          else (case RegExp_i pat of None \<Rightarrow> Inl SyntaxError | Some m \<Rightarrow> Inr m))"

text \<open>
  The store's cursor, \<open>find(query).skip(s).limit(l)\<close> over the matching documents, as
  the store documents it: a skip must be a non-negative number, a limit of 0 means no
  limit, and a negative limit counts as its absolute value.
\<close>

definition skip_limit :: "parsedInt \<Rightarrow> parsedInt \<Rightarrow> 'a list \<Rightarrow> err + 'a list" where
  "skip_limit s l docs =
     (case s of
        None \<Rightarrow> Inl StoreError
      | Some sk \<Rightarrow>
          if sk < 0 then Inl StoreError
          else
            (case l of
               None \<Rightarrow> Inl StoreError
             | Some lm \<Rightarrow>
                 Inr (if lm = 0 then drop (nat sk) docs
                      else take (nat \<bar>lm\<bar>) (drop (nat sk) docs))))"

definition clients_get ::
  "(string \<Rightarrow> (string \<Rightarrow> bool) option) \<Rightarrow> client collection \<Rightarrow> listQuery
     \<Rightarrow> (objectId \<times> client) listResult reply"
where
  "clients_get RegExp_i clients q =
     (let page = page_of q; limit = limit_of q in
      case field_filter RegExp_i (q_name q) of
        Inl e \<Rightarrow> Reply 500 (MessageError ''Error fetching clients'' e)
      | Inr byName \<Rightarrow>
          (case field_filter RegExp_i (q_email q) of
             Inl e \<Rightarrow> Reply 500 (MessageError ''Error fetching clients'' e)
           | Inr byEmail \<Rightarrow>
               (let matching = filter (\<lambda>c. byName (name (snd c)) \<and> byEmail (email (snd c))) clients
                in case skip_limit (skip_of page limit) limit matching of
                     Inl e \<Rightarrow> Reply 500 (MessageError ''Error fetching clients'' e)
                   | Inr found \<Rightarrow>
                       Reply 200 (Json \<lparr>r_total = length matching, r_page = page, r_limit = limit,
                                        r_totalPages = Math_ceil_div (length matching) limit,
                                        r_data = found\<rparr>))))"

text \<open>The three clients of \<open>seed.js\<close>.\<close>

definition seededClients :: "client collection" where
  "seededClients =
     [(1, \<lparr>name = ''John Doe'', email = ''john@example.com''\<rparr>),
      (2, \<lparr>name = ''Jane Smith'', email = ''jane@example.com''\<rparr>),
      (3, \<lparr>name = ''Alice Brown'', email = ''alice@example.com''\<rparr>)]"

section \<open>Authentication middleware\<close>

text \<open>
  \<open>String.prototype.replace(pattern, replacement)\<close> with a string pattern: the first
  occurrence of the pattern, if any, is replaced. The replacement is taken literally;
  the middleware's is the empty string.
\<close>

fun String_replace :: "string \<Rightarrow> string \<Rightarrow> string \<Rightarrow> string" where
  "String_replace [] pat rep = (if pat = [] then rep else [])"
| "String_replace (c # cs) pat rep =
     (if prefix pat (c # cs) then rep @ drop (length pat) (c # cs)
      else c # String_replace cs pat rep)"

text \<open>
  The middleware either answers the request itself or hands it on with the decoded token
  attached as \<open>req.user\<close>.
\<close>

datatype ('d, 'u) outcome =
    Halt "'d reply"
  | Next 'u

text \<open>
  \<^verbatim>\<open>
  export default (req, res, next) => {
    const token = req.header("Authorization");
    if (!token) return res.status(401).json({ message: "Access denied. No token provided." });
    try {
      const decoded = verify(token.replace("Bearer ", ""), SECRET_KEY);
      req.user = decoded;
      next();
    } catch (err) {
      res.status(401).json({ message: "Invalid token" });
    }
  };
  \<close>
  The header is absent (\<open>None\<close>) or a string; \<open>!token\<close> holds for an absent header and
  for the empty string. The parameter \<open>verify\<close> is the token library's \<open>verify\<close> under
  the configured secret at the time of the request: \<open>None\<close> when it throws, the decoded
  payload otherwise.
\<close>

definition authMiddleware :: "(string \<Rightarrow> 'u option) \<Rightarrow> string option \<Rightarrow> ('d, 'u) outcome" where
  "authMiddleware verify header =
     (case header of
        None \<Rightarrow> Halt (Reply 401 (Message ''Access denied. No token provided.''))
      | Some token \<Rightarrow>
          if token = [] then Halt (Reply 401 (Message ''Access denied. No token provided.''))
          else
            (case verify (String_replace token ''Bearer '' []) of
               None \<Rightarrow> Halt (Reply 401 (Message ''Invalid token''))
             | Some decoded \<Rightarrow> Next decoded))"

section \<open>Orders\<close>

text \<open>
  A JavaScript Number is kept as a type parameter \<open>'n\<close> of which the handlers use only
  \<open>0\<close>, \<open>1\<close>, \<open>+\<close>, \<open>*\<close> and \<open>\<le>\<close>: no law of arithmetic is assumed, so what is proved
  of the totals holds for any arithmetic, floating point included. A request body has
  the documented shape: \<open>items\<close>, when present, is an array of objects with a textual
  \<open>productId\<close> and a numeric \<open>quantity\<close>.
\<close>

record ('i, 'n) item =
  productId :: 'i
  quantity :: 'n

text \<open>
  Modelled from the spec: the Product model (\<open>models/Product\<close>) is not among the
  sources; a Product has a name and a price, and its \<open>findById\<close> resolves a product
  by id as every model's does.
\<close>

record 'n product =
  product_name :: string
  price :: 'n

datatype orderStatus = pending | shipped | delivered | canceled

text \<open>The Order schema of \<open>models/Order.js\<close>.\<close>

record 'n order =
  clientId :: objectId
  items :: "(objectId, 'n) item list"
  totalPrice :: 'n
  status :: orderStatus
  createdAt :: nat

record 'n orderBody =
  req_clientId :: "string option"
  req_items :: "(string, 'n) item list option"
  req_totalPrice :: "'n option"

text \<open>
  The pricing loop of the order handlers:
  \<^verbatim>\<open>
  let totalPrice = 0;
  for (let item of items) {
      const product = await Product.findById(item.productId);
      if (!product) return res.status(400).json({ message: `Invalid product ID: ${item.productId}` });
      totalPrice += product.price * item.quantity;
  }
  \<close>
  The running total is the accumulator \<open>acc\<close>. The loop ends with the total, with the
  early return for a product that was not found, or with the exception \<open>findById\<close>
  threw.
\<close>

datatype 'n priced =
    Thrown err
  | InvalidProduct string
  | Total 'n

fun price_loop ::
  "(string \<Rightarrow> objectId option) \<Rightarrow> ('n::{plus,times}) product collection
     \<Rightarrow> (string, 'n) item list \<Rightarrow> 'n \<Rightarrow> 'n priced"
where
  "price_loop castObjectId products [] acc = Total acc"
| "price_loop castObjectId products (item # rest) acc =
     (case findById castObjectId products (Some (productId item)) of
        Inl e \<Rightarrow> Thrown e
      | Inr None \<Rightarrow> InvalidProduct (productId item)
      | Inr (Some p) \<Rightarrow>
          price_loop castObjectId products rest (acc + price (snd p) * quantity item))"

text \<open>Casting the items of a body to the schema: every \<open>productId\<close> becomes an ObjectId.\<close>

fun castItems ::
  "(string \<Rightarrow> objectId option) \<Rightarrow> (string, 'n) item list \<Rightarrow> (objectId, 'n) item list option"
where
  "castItems castObjectId [] = Some []"
| "castItems castObjectId (item # rest) =
     (case castObjectId (productId item) of
        None \<Rightarrow> None
      | Some k \<Rightarrow>
          (case castItems castObjectId rest of
             None \<Rightarrow> None
           | Some rest' \<Rightarrow> Some (\<lparr>productId = k, quantity = quantity item\<rparr> # rest')))"

text \<open>
  \<open>new Order({ clientId, items, totalPrice })\<close> followed by \<open>save()\<close>. The document gets
  the fresh \<open>_id\<close> \<open>new_id\<close>, the defaults \<open>status = pending\<close> and \<open>createdAt = now\<close>, and
  an empty \<open>items\<close> array when none is given. Saving validates the schema: \<open>clientId\<close>
  and \<open>totalPrice\<close> are required, every id must cast, every \<open>quantity\<close> must be at
  least 1. A document that fails is not stored and the save throws.
\<close>

definition Order_save ::
  "(string \<Rightarrow> objectId option) \<Rightarrow> objectId \<Rightarrow> nat \<Rightarrow> ('n::{one,ord}) order collection
     \<Rightarrow> string option \<Rightarrow> (string, 'n) item list option \<Rightarrow> 'n option
     \<Rightarrow> err + ((objectId \<times> 'n order) \<times> 'n order collection)"
where
  "Order_save castObjectId new_id now orders cid its tot =
     (case cid of
        None \<Rightarrow> Inl ValidationError
      | Some c \<Rightarrow>
          (case castObjectId c of
             None \<Rightarrow> Inl ValidationError
           | Some k \<Rightarrow>
               (case castItems castObjectId (case its of None \<Rightarrow> [] | Some xs \<Rightarrow> xs) of
                  None \<Rightarrow> Inl ValidationError
                | Some xs \<Rightarrow>
                    (case tot of
                       None \<Rightarrow> Inl ValidationError
                     | Some t \<Rightarrow>
                         if list_all (\<lambda>x. 1 \<le> quantity x) xs
                         then
                           (let doc = (new_id, \<lparr>clientId = k, items = xs, totalPrice = t,
                                                 status = pending, createdAt = now\<rparr>)
                            in Inr (doc, orders @ [doc]))
                         else Inl ValidationError))))"

text \<open>
  \<open>POST /orders\<close>, the handler that prices the order:
  \<^verbatim>\<open>
  try {
      const { clientId, items } = req.body;
      const clientExists = await Client.findById(clientId);
      if (!clientExists) return res.status(400).json({ message: "Invalid client ID" });
      let totalPrice = 0;
      for (let item of items) { ... }
      const newOrder = new Order({ clientId, items, totalPrice });
      await newOrder.save();
      res.status(201).json(newOrder);
  } catch (err) {
      res.status(400).json({ message: "Error creating order", error: err.message });
  }
  \<close>
  Iterating over absent \<open>items\<close> throws a TypeError.
\<close>

definition orders_post ::
  "(string \<Rightarrow> objectId option) \<Rightarrow> objectId \<Rightarrow> nat \<Rightarrow> client collection
     \<Rightarrow> ('n::{zero,one,plus,times,ord}) product collection \<Rightarrow> 'n order collection \<Rightarrow> 'n orderBody
     \<Rightarrow> (objectId \<times> 'n order) reply \<times> 'n order collection"
where
  "orders_post castObjectId new_id now clients products orders b =
     (case findById castObjectId clients (req_clientId b) of
        Inl e \<Rightarrow> (Reply 400 (MessageError ''Error creating order'' e), orders)
      | Inr None \<Rightarrow> (Reply 400 (Message ''Invalid client ID''), orders)
      | Inr (Some clientExists) \<Rightarrow>
          (case req_items b of
             None \<Rightarrow> (Reply 400 (MessageError ''Error creating order'' TypeError), orders)
           | Some its \<Rightarrow>
               (case price_loop castObjectId products its 0 of
                  Thrown e \<Rightarrow> (Reply 400 (MessageError ''Error creating order'' e), orders)
                | InvalidProduct pid \<Rightarrow>
                    (Reply 400 (Message (''Invalid product ID: '' @ pid)), orders)
                | Total t \<Rightarrow>
                    (case Order_save castObjectId new_id now orders (req_clientId b) (Some its) (Some t) of
                       Inl e \<Rightarrow> (Reply 400 (MessageError ''Error creating order'' e), orders)
                     | Inr (newOrder, orders') \<Rightarrow> (Reply 201 (Json newOrder), orders')))))"

text \<open>
  \<open>PUT /orders/:id\<close>:
  \<^verbatim>\<open>
  try {
      const { items } = req.body;
      let totalPrice = 0;
      for (let item of items) { ... }
      const order = await Order.findByIdAndUpdate(req.params.id, { items, totalPrice }, { new: true });
      if (!order) return res.status(404).json({ message: "Order not found" });
      res.json(order);
  } catch (err) {
      res.status(400).json({ message: "Error updating order", error: err.message });
  }
  \<close>
  The update is cast to the schema and applied without validation. Every productId has
  been found by the loop when the cast is reached, so the cast of the items does not
  fail there.
\<close>

definition orders_put ::
  "(string \<Rightarrow> objectId option) \<Rightarrow> ('n::{zero,plus,times}) product collection \<Rightarrow> 'n order collection
     \<Rightarrow> string \<Rightarrow> 'n orderBody \<Rightarrow> (objectId \<times> 'n order) reply \<times> 'n order collection"
where
  "orders_put castObjectId products orders i b =
     (case req_items b of
        None \<Rightarrow> (Reply 400 (MessageError ''Error updating order'' TypeError), orders)
      | Some its \<Rightarrow>
          (case price_loop castObjectId products its 0 of
             Thrown e \<Rightarrow> (Reply 400 (MessageError ''Error updating order'' e), orders)
           | InvalidProduct pid \<Rightarrow>
               (Reply 400 (Message (''Invalid product ID: '' @ pid)), orders)
           | Total t \<Rightarrow>
               (case castItems castObjectId its of
                  None \<Rightarrow> (Reply 400 (MessageError ''Error updating order'' (CastError ''items'')), orders)
                | Some xs \<Rightarrow>
                    (case findByIdAndUpdate castObjectId orders i
                            (\<lambda>ord. ord\<lparr>items := xs, totalPrice := t\<rparr>) of
                       Inl e \<Rightarrow> (Reply 400 (MessageError ''Error updating order'' e), orders)
                     | Inr (None, orders') \<Rightarrow> (Reply 404 (Message ''Order not found''), orders')
                     | Inr (Some order, orders') \<Rightarrow> (Reply 200 (Json order), orders')))))"

text \<open>
  \<open>DELETE /orders/:id\<close>:
  \<^verbatim>\<open>
  try {
      const order = await Order.findByIdAndDelete(req.params.id);
      if (!order) return res.status(404).json({ message: "Order not found" });
      res.json({ message: "Order deleted successfully" });
  } catch (err) {
      res.status(400).json({ message: "Invalid ID format" });
  }
  \<close>
\<close>

definition orders_delete ::
  "(string \<Rightarrow> objectId option) \<Rightarrow> 'n order collection \<Rightarrow> string \<Rightarrow> unit reply \<times> 'n order collection"
where
  "orders_delete castObjectId orders i =
     (case findByIdAndDelete castObjectId orders i of
        Inl e \<Rightarrow> (Reply 400 (Message ''Invalid ID format''), orders)
      | Inr (None, orders') \<Rightarrow> (Reply 404 (Message ''Order not found''), orders')
      | Inr (Some d, orders') \<Rightarrow> (Reply 200 (Message ''Order deleted successfully''), orders'))"

text \<open>
  The other copy of the order routes has a \<open>POST /orders\<close> that takes the total from the
  request:
  \<^verbatim>\<open>
  try {
      const { clientId, items, totalPrice } = req.body;
      const clientExists = await Client.findById(clientId);
      if (!clientExists) return res.status(400).json({ message: "Invalid client ID" });
      const newOrder = new Order({ clientId, items, totalPrice });
      await newOrder.save();
      res.status(201).json(newOrder);
  } catch (err) {
      res.status(400).json({ message: "Error creating order" });
  }
  \<close>
\<close>

definition orders_post_alt ::
  "(string \<Rightarrow> objectId option) \<Rightarrow> objectId \<Rightarrow> nat \<Rightarrow> client collection
     \<Rightarrow> ('n::{one,ord}) order collection \<Rightarrow> 'n orderBody
     \<Rightarrow> (objectId \<times> 'n order) reply \<times> 'n order collection"
where
  "orders_post_alt castObjectId new_id now clients orders b =
     (case findById castObjectId clients (req_clientId b) of
        Inl e \<Rightarrow> (Reply 400 (Message ''Error creating order''), orders)
      | Inr None \<Rightarrow> (Reply 400 (Message ''Invalid client ID''), orders)
      | Inr (Some clientExists) \<Rightarrow>
          (case Order_save castObjectId new_id now orders
                  (req_clientId b) (req_items b) (req_totalPrice b) of
             Inl e \<Rightarrow> (Reply 400 (Message ''Error creating order''), orders)
           | Inr (newOrder, orders') \<Rightarrow> (Reply 201 (Json newOrder), orders')))"

text \<open>
  \<open>POST /clients/:clientId/orders\<close> of \<open>routes/clientOrdersRoutes.js\<close>, behind the
  authentication middleware:
  \<^verbatim>\<open>
  import Order, { find, findOne, findOneAndUpdate, findOneAndDelete } from "../models/Order";
  import { findById } from "../models/Product";
  import authMiddleware from "../middleware/authMiddleware";

  router.post("/:clientId/orders", authMiddleware, async (req, res) => {
    try {
      const { items } = req.body;
      let totalPrice = 0;
      for (let item of items) {
        const product = await findById(item.productId);
        if (!product) return res.status(400).json({ message: `Invalid product ID: ${item.productId}` });
        totalPrice += product.price * item.quantity;
      }
      const newOrder = new Order({ clientId: req.params.clientId, items, totalPrice });
      await newOrder.save();
      res.status(201).json(newOrder);
    } catch (err) {
      res.status(400).json({ message: "Error creating order", error: err.message });
    }
  });
  \<close>
  The loop is the pricing loop, but its \<open>findById\<close> is the bare import: the first item
  makes it throw. \<open>Order\<close> is the default import, the model itself, so \<open>new Order\<close> and
  \<open>save\<close> work. No client is looked up anywhere.
\<close>

fun price_loop_bare ::
  "('n::{plus,times}) product collection \<Rightarrow> (string, 'n) item list \<Rightarrow> 'n \<Rightarrow> 'n priced"
where
  "price_loop_bare products [] acc = Total acc"
| "price_loop_bare products (item # rest) acc =
     (case bare_findById products (productId item) of
        Inl e \<Rightarrow> Thrown e
      | Inr None \<Rightarrow> InvalidProduct (productId item)
      | Inr (Some p) \<Rightarrow>
          price_loop_bare products rest (acc + price (snd p) * quantity item))"

definition client_orders_post ::
  "(string \<Rightarrow> 'u option) \<Rightarrow> (string \<Rightarrow> objectId option) \<Rightarrow> objectId \<Rightarrow> nat
     \<Rightarrow> ('n::{zero,one,plus,times,ord}) product collection \<Rightarrow> 'n order collection
     \<Rightarrow> string option \<Rightarrow> string \<Rightarrow> 'n orderBody
     \<Rightarrow> (objectId \<times> 'n order) reply \<times> 'n order collection"
where
  "client_orders_post verify castObjectId new_id now products orders header clientIdParam b =
     (case authMiddleware verify header of
        Halt r \<Rightarrow> (r, orders)
      | Next user \<Rightarrow>
          (case req_items b of
             None \<Rightarrow> (Reply 400 (MessageError ''Error creating order'' TypeError), orders)
           | Some its \<Rightarrow>
               (case price_loop_bare products its 0 of
                  Thrown e \<Rightarrow> (Reply 400 (MessageError ''Error creating order'' e), orders)
                | InvalidProduct pid \<Rightarrow>
                    (Reply 400 (Message (''Invalid product ID: '' @ pid)), orders)
                | Total t \<Rightarrow>
                    (case Order_save castObjectId new_id now orders (Some clientIdParam) (Some its) (Some t) of
                       Inl e \<Rightarrow> (Reply 400 (MessageError ''Error creating order'' e), orders)
                     | Inr (newOrder, orders') \<Rightarrow> (Reply 201 (Json newOrder), orders')))))"

section \<open>What the pricing is measured against\<close>

text \<open>
  A productId resolves when \<open>Product.findById\<close> returns a product for it. The unit price
  of a productId is the price of the product it resolves to. The total the spec asks for
  is the sum, over the items in the order given, of unit price times quantity, starting
  from 0. \<open>product_error\<close> is the response that names an offending productId: the handler's
  own message for a well-formed id without a product, the caught cast error for a
  malformed one.
\<close>

definition resolves :: "(string \<Rightarrow> objectId option) \<Rightarrow> 'a collection \<Rightarrow> string \<Rightarrow> bool" where
  "resolves castObjectId docs pid =
     (case findById castObjectId docs (Some pid) of
        Inl e \<Rightarrow> False
      | Inr None \<Rightarrow> False
      | Inr (Some d) \<Rightarrow> True)"

definition unit_price ::
  "(string \<Rightarrow> objectId option) \<Rightarrow> ('n::zero) product collection \<Rightarrow> string \<Rightarrow> 'n" where
  "unit_price castObjectId products pid =
     (case findById castObjectId products (Some pid) of
        Inl e \<Rightarrow> 0
      | Inr None \<Rightarrow> 0
      | Inr (Some p) \<Rightarrow> price (snd p))"

definition sum_in_order ::
  "(string \<Rightarrow> objectId option) \<Rightarrow> ('n::{zero,plus,times}) product collection
     \<Rightarrow> (string, 'n) item list \<Rightarrow> 'n" where
  "sum_in_order castObjectId products its =
     foldl (\<lambda>acc x. acc + unit_price castObjectId products (productId x) * quantity x) 0 its"


section \<open>Registration and login\<close>

text \<open>
  Modelled from the spec: the User model (\<open>models/User\<close>) is not among the sources. A
  User has a name, an email and a password, and the password is stored as an
  irreversible hash, never the plaintext: saving a new user stores \<open>hash password\<close>.
  The auth routes reach its \<open>findOne\<close> through the bare import only.
\<close>

record user =
  user_name :: string
  user_email :: string
  user_password :: string

record registerBody =
  reg_name :: string
  reg_email :: string
  reg_password :: string

record loginBody =
  login_email :: string
  login_password :: string

text \<open>
  \<open>POST /auth/register\<close>:
  \<^verbatim>\<open>
  import User, { findOne } from "../models/User";

  [ body("name").notEmpty().withMessage("Name is required"),
    body("email").isEmail().withMessage("Valid email is required"),
    body("password").isLength({ min: 6 }).withMessage("Password must be at least 6 characters long") ],
  async (req, res) => {
    const errors = validationResult(req);
    if (!errors.isEmpty()) return res.status(400).json({ errors: errors.array() });
    try {
      const { name, email, password } = req.body;
      let user = await findOne({ email });
      if (user) return res.status(400).json({ message: "Email already in use" });
      user = new User({ name, email, password });
      await user.save();
      res.status(201).json({ message: "User registered successfully" });
    } catch (err) {
      res.status(500).json({ message: "Server error", error: err.message });
    }
  }
  \<close>
  A field that is absent validates as the empty string. \<open>isEmail\<close> is the validator
  library's test, \<open>hash\<close> the password hasher and \<open>new_id\<close> the \<open>_id\<close> of the new
  document. \<open>findOne\<close> is the bare import.
\<close>

definition register_errors :: "(string \<Rightarrow> bool) \<Rightarrow> registerBody \<Rightarrow> string list" where
  "register_errors isEmail b =
     (if reg_name b = [] then [''Name is required''] else [])
     @ (if isEmail (reg_email b) then [] else [''Valid email is required''])
     @ (if length (reg_password b) < 6
        then [''Password must be at least 6 characters long''] else [])"

definition auth_register ::
  "(string \<Rightarrow> bool) \<Rightarrow> (string \<Rightarrow> string) \<Rightarrow> objectId \<Rightarrow> user collection \<Rightarrow> registerBody
     \<Rightarrow> unit reply \<times> user collection"
where
  "auth_register isEmail hash new_id users b =
     (if register_errors isEmail b \<noteq> [] then (Reply 400 (Errors (register_errors isEmail b)), users)
      else
        (case bare_findOne users (reg_email b) of
           Inl e \<Rightarrow> (Reply 500 (MessageError ''Server error'' e), users)
         | Inr (Some u) \<Rightarrow> (Reply 400 (Message ''Email already in use''), users)
         | Inr None \<Rightarrow>
             (Reply 201 (Message ''User registered successfully''),
              users @ [(new_id, \<lparr>user_name = reg_name b, user_email = reg_email b,
                                  user_password = hash (reg_password b)\<rparr>)])))"

text \<open>
  \<open>POST /auth/login\<close>:
  \<^verbatim>\<open>
  [ body("email").isEmail().withMessage("Valid email is required"),
    body("password").notEmpty().withMessage("Password is required") ],
  async (req, res) => {
    const errors = validationResult(req);
    if (!errors.isEmpty()) return res.status(400).json({ errors: errors.array() });
    try {
      const { email, password } = req.body;
      const user = await findOne({ email });
      if (!user) return res.status(400).json({ message: "Invalid credentials" });
      const isMatch = await compare(password, user.password);
      if (!isMatch) return res.status(400).json({ message: "Invalid credentials" });
      const token = sign({ userId: user._id }, SECRET_KEY, { expiresIn: "1h" });
      res.json({ token });
    } catch (err) {
      res.status(500).json({ message: "Server error", error: err.message });
    }
  }
  \<close>
  \<open>compare\<close> is the hasher's comparison of a plaintext with a stored hash, \<open>sign\<close> the
  token library's signature of a payload carrying the user's \<open>_id\<close>. \<open>findOne\<close> is the
  bare import.
\<close>

definition login_errors :: "(string \<Rightarrow> bool) \<Rightarrow> loginBody \<Rightarrow> string list" where
  "login_errors isEmail b =
     (if isEmail (login_email b) then [] else [''Valid email is required''])
     @ (if login_password b = [] then [''Password is required''] else [])"

definition auth_login ::
  "(string \<Rightarrow> bool) \<Rightarrow> (string \<Rightarrow> string \<Rightarrow> bool) \<Rightarrow> (objectId \<Rightarrow> string) \<Rightarrow> user collection
     \<Rightarrow> loginBody \<Rightarrow> string reply"
where
  "auth_login isEmail compare sign users b =
     (if login_errors isEmail b \<noteq> [] then Reply 400 (Errors (login_errors isEmail b))
      else
        (case bare_findOne users (login_email b) of
           Inl e \<Rightarrow> Reply 500 (MessageError ''Server error'' e)
         | Inr None \<Rightarrow> Reply 400 (Message ''Invalid credentials'')
         | Inr (Some u) \<Rightarrow>
             if compare (login_password b) (user_password (snd u))
             then Reply 200 (Json (sign (fst u)))
             else Reply 400 (Message ''Invalid credentials'')))"

section \<open>Example data\<close>

text \<open>Products, tokens and credentials for the worked examples.\<close>

definition exampleProducts :: "rat product collection" where
  "exampleProducts =
     [(10, \<lparr>product_name = ''Keyboard'', price = 10\<rparr>),
      (11, \<lparr>product_name = ''Cable'', price = 5 / 2\<rparr>)]"

definition exampleOrders :: "rat order collection" where
  "exampleOrders =
     [(20, \<lparr>clientId = 1, items = [\<lparr>productId = 10, quantity = 2\<rparr>], totalPrice = 20,
            status = pending, createdAt = 0\<rparr>)]"

definition exampleSign :: "objectId \<Rightarrow> string" where
  "exampleSign uid = ''header.'' @ replicate uid (CHR ''x'') @ ''.signature''"

definition exampleVerify :: "string \<Rightarrow> objectId option" where
  "exampleVerify t =
     (if 17 \<le> length t \<and> t = exampleSign (length t - 17) then Some (length t - 17) else None)"

definition exampleIsEmail :: "string \<Rightarrow> bool" where
  "exampleIsEmail s = (CHR ''@'' \<in> set s)"

definition exampleHash :: "string \<Rightarrow> string" where
  "exampleHash p = ''$2a$'' @ rev p"

definition exampleCompare :: "string \<Rightarrow> string \<Rightarrow> bool" where
  "exampleCompare p h = (h = exampleHash p)"

section \<open>Store lemmas\<close>

lemma find_id_None_iff: "find (\<lambda>d. fst d = k) docs = None \<longleftrightarrow> k \<notin> fst ` set docs"
  by (induction docs) auto

lemma delete_doc_absent: "k \<notin> fst ` set docs \<Longrightarrow> delete_doc k docs = docs"
  by (induction docs) auto

lemma delete_doc_removes: "distinct (map fst docs) \<Longrightarrow> k \<notin> fst ` set (delete_doc k docs)"
  by (induction docs) auto

lemma delete_doc_subset: "set (delete_doc k docs) \<subseteq> set docs"
  by (induction docs) auto

lemma find_id_Some: "find (\<lambda>d. fst d = k) docs = Some d \<Longrightarrow> fst d = k \<and> d \<in> set docs"
  by (auto simp: find_Some_iff)

lemma findByIdAndDelete_absent:
  "castObjectId i = Some k \<Longrightarrow> k \<notin> fst ` set docs
     \<Longrightarrow> findByIdAndDelete castObjectId docs i = Inr (None, docs)"
  using find_id_None_iff [of k docs] by (simp add: findByIdAndDelete_def)

lemma findByIdAndDelete_result:
  "castObjectId i = Some k \<Longrightarrow>
     \<exists>d. findByIdAndDelete castObjectId docs i = Inr (d, delete_doc k docs)"
  using find_id_None_iff [of k docs] delete_doc_absent [of k docs]
  by (cases "find (\<lambda>d. fst d = k) docs") (auto simp: findByIdAndDelete_def)

lemma clients_delete_absent:
  "castObjectId i = Some k \<Longrightarrow> k \<notin> fst ` set clients
     \<Longrightarrow> clients_delete castObjectId clients i = (Reply 404 (Message ''Client not found''), clients)"
  by (simp add: clients_delete_def findByIdAndDelete_absent)

lemma orders_delete_absent:
  "castObjectId i = Some k \<Longrightarrow> k \<notin> fst ` set orders
     \<Longrightarrow> orders_delete castObjectId orders i = (Reply 404 (Message ''Order not found''), orders)"
  by (simp add: orders_delete_def findByIdAndDelete_absent)

lemma clients_delete_store:
  "castObjectId i = Some k \<Longrightarrow> snd (clients_delete castObjectId clients i) = delete_doc k clients"
  using findByIdAndDelete_result [of castObjectId i k clients]
  by (auto simp: clients_delete_def split: option.splits)

lemma orders_delete_store:
  "castObjectId i = Some k \<Longrightarrow> snd (orders_delete castObjectId orders i) = delete_doc k orders"
  using findByIdAndDelete_result [of castObjectId i k orders]
  by (auto simp: orders_delete_def split: option.splits)

lemma cast_example_bad: "castHex24 ''not-an-id'' = None"
  by (simp add: castHex24_def)

lemma cast_example_2: "castHex24 ''000000000000000000000002'' = Some 2"
  by (simp add: castHex24_def hexDigit_def)

lemma cast_example_4: "castHex24 ''000000000000000000000004'' = Some 4"
  by (simp add: castHex24_def hexDigit_def)

lemma cast_example_14: "castHex24 ''000000000000000000000014'' = Some 20"
  by (simp add: castHex24_def hexDigit_def)

section \<open>Pricing lemmas\<close>





lemma resolves_cast: "resolves castObjectId docs pid \<Longrightarrow> \<exists>k. castObjectId pid = Some k"
  by (auto simp: resolves_def findById_def split: option.splits)

lemma castItems_all_resolve:
  "list_all (\<lambda>x. resolves castObjectId products (productId x)) its \<Longrightarrow>
     \<exists>xs. castItems castObjectId its = Some xs \<and> map quantity xs = map quantity its"
proof (induction its)
  case Nil
  then show ?case by simp
next
  case (Cons x xs)
  then obtain k where "castObjectId (productId x) = Some k"
    using resolves_cast [of castObjectId products "productId x"] by auto
  with Cons show ?case by auto
qed


lemma Order_save_result:
  "Order_save castObjectId new_id now orders cid its tot = Inr (doc, orders') \<Longrightarrow>
     orders' = orders @ [doc] \<and> fst doc = new_id \<and> tot = Some (totalPrice (snd doc))
     \<and> list_all (\<lambda>x. 1 \<le> quantity x) (items (snd doc))
     \<and> castItems castObjectId (case its of None \<Rightarrow> [] | Some xs \<Rightarrow> xs) = Some (items (snd doc))"
  by (auto simp: Order_save_def Let_def split: option.splits if_splits)

lemma orders_post_created:
  assumes "orders_post castObjectId new_id now clients products orders b = (Reply 201 (Json d), orders')"
  shows "\<exists>its t. req_items b = Some its \<and> price_loop castObjectId products its 0 = Total t
           \<and> Order_save castObjectId new_id now orders (req_clientId b) (Some its) (Some t) = Inr (d, orders')"
  using assms
  by (auto simp: orders_post_def split: sum.splits option.splits priced.splits)


lemma cast_example_1: "castHex24 ''000000000000000000000001'' = Some 1"
  by (simp add: castHex24_def hexDigit_def)

lemma cast_example_9: "castHex24 ''000000000000000000000009'' = Some 9"
  by (simp add: castHex24_def hexDigit_def)

lemma cast_example_a: "castHex24 ''00000000000000000000000a'' = Some 10"
  by (simp add: castHex24_def hexDigit_def)





section \<open>Looking a client up\<close>

text \<open>
  Claim C8. For every id, \<open>GET /clients/:id\<close> tells the two failures apart: an id that
  casts to an ObjectId but matches no stored client is answered 404 "Client not found",
  an id that does not cast is answered 400 "Invalid ID format" and never 404; an id that
  matches is answered with that client.
\<close>

theorem clients_get_by_id_failure_modes:
  "(castObjectId i = None \<longrightarrow>
      clients_get_by_id castObjectId clients i = Reply 400 (Message ''Invalid ID format''))
   \<and> (\<forall>k. castObjectId i = Some k \<longrightarrow> k \<notin> fst ` set clients \<longrightarrow>
      clients_get_by_id castObjectId clients i = Reply 404 (Message ''Client not found''))
   \<and> (\<forall>k. castObjectId i = Some k \<longrightarrow> k \<in> fst ` set clients \<longrightarrow>
      (\<exists>c. (k, c) \<in> set clients \<and> clients_get_by_id castObjectId clients i = Reply 200 (Json (k, c))))"
proof (intro conjI allI impI)
  assume "castObjectId i = None"
  then show "clients_get_by_id castObjectId clients i = Reply 400 (Message ''Invalid ID format'')"
    by (simp add: clients_get_by_id_def findById_def)
next
  fix k assume "castObjectId i = Some k" "k \<notin> fst ` set clients"
  then show "clients_get_by_id castObjectId clients i = Reply 404 (Message ''Client not found'')"
    using find_id_None_iff [of k clients] by (simp add: clients_get_by_id_def findById_def)
next
  fix k assume c: "castObjectId i = Some k" and "k \<in> fst ` set clients"
  then obtain d where d: "find (\<lambda>d. fst d = k) clients = Some d"
    using find_id_None_iff [of k clients] by (cases "find (\<lambda>d. fst d = k) clients") auto
  then have "fst d = k" "d \<in> set clients"
    by (auto simp: find_Some_iff)
  then have "(k, snd d) \<in> set clients" "d = (k, snd d)" by auto
  then show "\<exists>c. (k, c) \<in> set clients \<and> clients_get_by_id castObjectId clients i = Reply 200 (Json (k, c))"
    using c d by (intro exI [of _ "snd d"]) (simp add: clients_get_by_id_def findById_def)
qed

text \<open>
  On the seeded clients: a malformed id gets 400, the well-formed id 4 that no client
  carries gets 404.
\<close>

theorem clients_get_by_id_failure_modes_witness:
  "castHex24 ''not-an-id'' = None
   \<and> clients_get_by_id castHex24 seededClients ''not-an-id'' = Reply 400 (Message ''Invalid ID format'')
   \<and> castHex24 ''000000000000000000000004'' = Some 4 \<and> 4 \<notin> fst ` set seededClients
   \<and> clients_get_by_id castHex24 seededClients ''000000000000000000000004''
       = Reply 404 (Message ''Client not found'')"
proof -
  have n: "(4::nat) \<notin> fst ` set seededClients" by (simp add: seededClients_def)
  note t = clients_get_by_id_failure_modes
    [of castHex24 "''not-an-id''" seededClients]
  note u = clients_get_by_id_failure_modes
    [of castHex24 "''000000000000000000000004''" seededClients]
  from t cast_example_bad have a:
    "clients_get_by_id castHex24 seededClients ''not-an-id'' = Reply 400 (Message ''Invalid ID format'')"
    by blast
  from u cast_example_4 n have b:
    "clients_get_by_id castHex24 seededClients ''000000000000000000000004''
       = Reply 404 (Message ''Client not found'')"
    by blast
  show ?thesis using a b n cast_example_4 cast_example_bad by simp
qed

section \<open>Deleting twice\<close>

text \<open>
  Claim C9. For every well-formed id, deleting an id that matches no stored record is
  answered 404 and leaves the store as it was, for clients and for orders; so a delete
  repeated right after a delete of the same id is answered 404, whatever the first one
  answered, and changes nothing. The second part relies on \<open>_id\<close> being unique in a
  collection, which the store guarantees.
\<close>

theorem delete_missing_is_not_found:
  assumes wf: "castObjectId i = Some k"
  shows "(k \<notin> fst ` set clients \<longrightarrow>
            clients_delete castObjectId clients i = (Reply 404 (Message ''Client not found''), clients))
       \<and> (distinct (map fst clients) \<longrightarrow>
            clients_delete castObjectId (snd (clients_delete castObjectId clients i)) i
              = (Reply 404 (Message ''Client not found''), snd (clients_delete castObjectId clients i)))
       \<and> (k \<notin> fst ` set orders \<longrightarrow>
            orders_delete castObjectId orders i = (Reply 404 (Message ''Order not found''), orders))
       \<and> (distinct (map fst orders) \<longrightarrow>
            orders_delete castObjectId (snd (orders_delete castObjectId orders i)) i
              = (Reply 404 (Message ''Order not found''), snd (orders_delete castObjectId orders i)))"
proof (intro conjI impI)
  assume "k \<notin> fst ` set clients"
  with wf show "clients_delete castObjectId clients i = (Reply 404 (Message ''Client not found''), clients)"
    by (rule clients_delete_absent)
next
  assume "distinct (map fst clients)"
  then have "k \<notin> fst ` set (delete_doc k clients)" by (rule delete_doc_removes)
  with wf show "clients_delete castObjectId (snd (clients_delete castObjectId clients i)) i
              = (Reply 404 (Message ''Client not found''), snd (clients_delete castObjectId clients i))"
    by (simp add: clients_delete_store clients_delete_absent)
next
  assume "k \<notin> fst ` set orders"
  with wf show "orders_delete castObjectId orders i = (Reply 404 (Message ''Order not found''), orders)"
    by (rule orders_delete_absent)
next
  assume "distinct (map fst orders)"
  then have "k \<notin> fst ` set (delete_doc k orders)" by (rule delete_doc_removes)
  with wf show "orders_delete castObjectId (snd (orders_delete castObjectId orders i)) i
              = (Reply 404 (Message ''Order not found''), snd (orders_delete castObjectId orders i))"
    by (simp add: orders_delete_store orders_delete_absent)
qed

text \<open>
  Deleting the seeded client 2 twice: 200 first, then 404 with the two remaining clients
  untouched; the same for the one example order, and for an order id that never existed.
\<close>

theorem delete_missing_is_not_found_witness:
  "clients_delete castHex24 seededClients ''000000000000000000000002''
     = (Reply 200 (Message ''Client deleted successfully''),
        [(1, \<lparr>name = ''John Doe'', email = ''john@example.com''\<rparr>),
         (3, \<lparr>name = ''Alice Brown'', email = ''alice@example.com''\<rparr>)])
   \<and> clients_delete castHex24
        [(1, \<lparr>name = ''John Doe'', email = ''john@example.com''\<rparr>),
         (3, \<lparr>name = ''Alice Brown'', email = ''alice@example.com''\<rparr>)] ''000000000000000000000002''
     = (Reply 404 (Message ''Client not found''),
        [(1, \<lparr>name = ''John Doe'', email = ''john@example.com''\<rparr>),
         (3, \<lparr>name = ''Alice Brown'', email = ''alice@example.com''\<rparr>)])
   \<and> orders_delete castHex24 (snd (orders_delete castHex24 exampleOrders ''000000000000000000000014''))
        ''000000000000000000000014''
     = (Reply 404 (Message ''Order not found''), [])
   \<and> orders_delete castHex24 exampleOrders ''000000000000000000000002''
     = (Reply 404 (Message ''Order not found''), exampleOrders)"
proof -
  have first: "clients_delete castHex24 seededClients ''000000000000000000000002''
     = (Reply 200 (Message ''Client deleted successfully''),
        [(1, \<lparr>name = ''John Doe'', email = ''john@example.com''\<rparr>),
         (3, \<lparr>name = ''Alice Brown'', email = ''alice@example.com''\<rparr>)])"
    by (simp add: clients_delete_def findByIdAndDelete_def cast_example_2 seededClients_def)
  have dc: "distinct (map fst seededClients)" by (simp add: seededClients_def)
  have do: "distinct (map fst exampleOrders)" by (simp add: exampleOrders_def)
  have no: "(2::nat) \<notin> fst ` set exampleOrders" by (simp add: exampleOrders_def)
  have ofirst: "snd (orders_delete castHex24 exampleOrders ''000000000000000000000014'') = []"
    by (simp add: orders_delete_def findByIdAndDelete_def cast_example_14 exampleOrders_def)
  note c = delete_missing_is_not_found
    [of castHex24 "''000000000000000000000002''" 2 seededClients exampleOrders, OF cast_example_2]
  note d = delete_missing_is_not_found
    [of castHex24 "''000000000000000000000014''" 20 seededClients exampleOrders, OF cast_example_14]
  from c dc first have second: "clients_delete castHex24
        [(1, \<lparr>name = ''John Doe'', email = ''john@example.com''\<rparr>),
         (3, \<lparr>name = ''Alice Brown'', email = ''alice@example.com''\<rparr>)] ''000000000000000000000002''
     = (Reply 404 (Message ''Client not found''),
        [(1, \<lparr>name = ''John Doe'', email = ''john@example.com''\<rparr>),
         (3, \<lparr>name = ''Alice Brown'', email = ''alice@example.com''\<rparr>)])"
    by simp
  from d do ofirst have third:
    "orders_delete castHex24 (snd (orders_delete castHex24 exampleOrders ''000000000000000000000014''))
        ''000000000000000000000014'' = (Reply 404 (Message ''Order not found''), [])"
    by simp
  from c no have fourth: "orders_delete castHex24 exampleOrders ''000000000000000000000002''
     = (Reply 404 (Message ''Order not found''), exampleOrders)"
    by blast
  show ?thesis using first second third fourth by simp
qed


section \<open>The authentication gate\<close>

lemma String_replace_absent:
  "\<not> (\<exists>a b. s = a @ pat @ b) \<Longrightarrow> String_replace s pat rep = s"
proof (induction s)
  case Nil
  then show ?case by auto
next
  case (Cons c cs)
  have np: "\<not> prefix pat (c # cs)"
  proof
    assume "prefix pat (c # cs)"
    then obtain b where "c # cs = pat @ b" by (auto simp: prefix_def)
    then have "c # cs = [] @ pat @ b" by simp
    with Cons.prems show False by blast
  qed
  have "\<not> (\<exists>a b. cs = a @ pat @ b)"
  proof
    assume "\<exists>a b. cs = a @ pat @ b"
    then obtain a b where "cs = a @ pat @ b" by blast
    then have "c # cs = (c # a) @ pat @ b" by simp
    with Cons.prems show False by blast
  qed
  with Cons.IH np show ?case by simp
qed

lemma String_replace_no_space:
  assumes "CHR '' '' \<notin> set t"
  shows "String_replace t ''Bearer '' [] = t"
proof (rule String_replace_absent)
  show "\<not> (\<exists>a b. t = a @ ''Bearer '' @ b)"
  proof
    assume "\<exists>a b. t = a @ ''Bearer '' @ b"
    then obtain a b where "t = a @ ''Bearer '' @ b" by blast
    then have "CHR '' '' \<in> set t" by simp
    with assms show False by simp
  qed
qed

lemma String_replace_prefix:
  "pat \<noteq> [] \<Longrightarrow> String_replace (pat @ t) pat rep = rep @ t"
  by (cases pat) auto

lemma String_replace_first:
  "pat \<noteq> [] \<Longrightarrow> \<forall>j<length a. \<not> prefix pat (drop j (a @ pat @ b)) \<Longrightarrow>
     String_replace (a @ pat @ b) pat rep = a @ rep @ b"
proof (induction a)
  case Nil
  then show ?case by (simp add: String_replace_prefix)
next
  case (Cons c cs)
  from Cons.prems(2) have "\<not> prefix pat (drop 0 ((c # cs) @ pat @ b))" by blast
  then have np: "\<not> prefix pat (c # cs @ pat @ b)" by simp
  have "\<forall>j<length cs. \<not> prefix pat (drop j (cs @ pat @ b))"
  proof (intro allI impI)
    fix j assume "j < length cs"
    then have "Suc j < length (c # cs)" by simp
    with Cons.prems(2) have "\<not> prefix pat (drop (Suc j) ((c # cs) @ pat @ b))" by blast
    then show "\<not> prefix pat (drop j (cs @ pat @ b))" by simp
  qed
  with Cons.IH Cons.prems(1) np show ?case by simp
qed

lemma exampleVerify_3: "exampleVerify ''header.xxx.signature'' = Some 3"
  by (simp add: exampleVerify_def exampleSign_def eval_nat_numeral)

lemma exampleVerify_garbage: "exampleVerify ''garbage'' = None"
  by (simp add: exampleVerify_def)

lemma exampleVerify_empty: "exampleVerify [] = None"
  by (simp add: exampleVerify_def)

lemma exampleVerify_compact:
  assumes "exampleVerify s \<noteq> None"
  shows "s \<noteq> [] \<and> CHR '' '' \<notin> set s"
proof -
  from assms have "s = exampleSign (length s - 17)"
    by (auto simp: exampleVerify_def split: if_splits)
  then obtain n where "s = ''header.'' @ replicate n (CHR ''x'') @ ''.signature''"
    unfolding exampleSign_def by blast
  then show ?thesis by auto
qed

text \<open>
  Claim C5, as the code has it. A request without an Authorization header, or with an
  empty one, is answered 401 "Access denied. No token provided."; a request whose
  non-empty header does not verify once its first "Bearer " is removed is answered 401
  "Invalid token"; in both cases the middleware halts and a protected handler such as
  \<open>POST /clients/:clientId/orders\<close> answers with the middleware's response and leaves the
  orders untouched. A header that verifies hands the decoded payload on as \<open>req.user\<close>.
\<close>

theorem authMiddleware_cases:
  "((header = None \<or> header = Some []) \<longrightarrow>
       authMiddleware verify header = Halt (Reply 401 (Message ''Access denied. No token provided.'')))
   \<and> (\<forall>h. header = Some h \<longrightarrow> h \<noteq> [] \<longrightarrow> verify (String_replace h ''Bearer '' []) = None \<longrightarrow>
       authMiddleware verify header = Halt (Reply 401 (Message ''Invalid token'')))
   \<and> (\<forall>h u. header = Some h \<longrightarrow> h \<noteq> [] \<longrightarrow> verify (String_replace h ''Bearer '' []) = Some u \<longrightarrow>
       authMiddleware verify header = Next u)
   \<and> (\<forall>r. authMiddleware verify header = Halt r \<longrightarrow>
       client_orders_post verify castObjectId new_id now products orders header cid b = (r, orders))"
  by (auto simp: authMiddleware_def client_orders_post_def split: option.splits)


text \<open>
  No header, a header that does not verify, and a header that does, under the example
  verifier; and the protected order creation halted by the middleware.
\<close>

theorem authMiddleware_cases_witness:
  "(authMiddleware exampleVerify None :: (unit, nat) outcome)
      = Halt (Reply 401 (Message ''Access denied. No token provided.''))
   \<and> exampleVerify (String_replace ''Bearer garbage'' ''Bearer '' []) = None
   \<and> (authMiddleware exampleVerify (Some ''Bearer garbage'') :: (unit, nat) outcome)
      = Halt (Reply 401 (Message ''Invalid token''))
   \<and> exampleVerify (String_replace ''Bearer header.xxx.signature'' ''Bearer '' []) = Some 3
   \<and> (authMiddleware exampleVerify (Some ''Bearer header.xxx.signature'') :: (unit, nat) outcome)
      = Next 3
   \<and> client_orders_post exampleVerify castHex24 30 0 exampleProducts exampleOrders None
        ''000000000000000000000001'' \<lparr>req_clientId = None, req_items = Some [], req_totalPrice = None\<rparr>
      = (Reply 401 (Message ''Access denied. No token provided.''), exampleOrders)"
proof -
  have g: "exampleVerify (String_replace ''Bearer garbage'' ''Bearer '' []) = None"
    by (simp add: exampleVerify_garbage)
  have v: "exampleVerify (String_replace ''Bearer header.xxx.signature'' ''Bearer '' []) = Some 3"
    by (simp add: exampleVerify_3)
  have a: "(authMiddleware exampleVerify None :: (unit, nat) outcome)
      = Halt (Reply 401 (Message ''Access denied. No token provided.''))"
    using authMiddleware_cases [of None exampleVerify] by blast
  have a': "(authMiddleware exampleVerify None :: (objectId \<times> rat order, nat) outcome)
      = Halt (Reply 401 (Message ''Access denied. No token provided.''))"
    using authMiddleware_cases [of None exampleVerify] by blast
  have b: "(authMiddleware exampleVerify (Some ''Bearer garbage'') :: (unit, nat) outcome)
      = Halt (Reply 401 (Message ''Invalid token''))"
    using authMiddleware_cases [of "Some ''Bearer garbage''" exampleVerify] g by blast
  have c: "(authMiddleware exampleVerify (Some ''Bearer header.xxx.signature'') :: (unit, nat) outcome)
      = Next 3"
    using authMiddleware_cases [of "Some ''Bearer header.xxx.signature''" exampleVerify] v by blast
  have d: "client_orders_post exampleVerify castHex24 30 0 exampleProducts exampleOrders None
        ''000000000000000000000001'' \<lparr>req_clientId = None, req_items = Some [], req_totalPrice = None\<rparr>
      = (Reply 401 (Message ''Access denied. No token provided.''), exampleOrders)"
    using authMiddleware_cases [of None exampleVerify castHex24 30 0 exampleProducts exampleOrders
        "''000000000000000000000001''" "\<lparr>req_clientId = None, req_items = Some [], req_totalPrice = None\<rparr>"] a'
    by blast
  show ?thesis using a b c d g v by simp
qed

text \<open>
  The claim as stated gives "Invalid token" to every request whose header is present and
  does not verify. The empty header is present, and the empty string does not verify, yet
  the answer is "Access denied. No token provided.": \<open>!token\<close> holds for the empty string.
\<close>

theorem authMiddleware_empty_header_counterexample:
  "exampleVerify (String_replace [] ''Bearer '' []) = None
   \<and> (authMiddleware exampleVerify (Some []) :: (unit, nat) outcome)
       = Halt (Reply 401 (Message ''Access denied. No token provided.''))
   \<and> (authMiddleware exampleVerify (Some []) :: (unit, nat) outcome)
       \<noteq> Halt (Reply 401 (Message ''Invalid token''))"
  by (simp add: authMiddleware_def exampleVerify_empty)

section \<open>The Bearer prefix\<close>

text \<open>
  Claim C10. The token library verifies tokens in compact form only, and such a token is
  not empty and contains no space. For every token that verifies, the middleware accepts
  the header that is exactly the token as it accepts "Bearer " followed by the token,
  attaching the same payload. Only the first occurrence of "Bearer " is removed, wherever
  it stands in the header.
\<close>

theorem bearer_prefix_not_required:
  assumes compact: "\<And>s. verify s \<noteq> None \<Longrightarrow> s \<noteq> [] \<and> CHR '' '' \<notin> set s"
    and ok: "verify t = Some u"
  shows "authMiddleware verify (Some t) = Next u
       \<and> authMiddleware verify (Some (''Bearer '' @ t)) = Next u
       \<and> (\<forall>a b. (\<forall>j<length a. \<not> prefix ''Bearer '' (drop j (a @ ''Bearer '' @ b))) \<longrightarrow>
             String_replace (a @ ''Bearer '' @ b) ''Bearer '' [] = a @ b)"
proof (intro conjI allI impI)
  from ok have "verify t \<noteq> None" by simp
  then have ne: "t \<noteq> []" and ns: "CHR '' '' \<notin> set t"
    using compact by blast+
  from ns have "String_replace t ''Bearer '' [] = t" by (rule String_replace_no_space)
  with ok ne show "authMiddleware verify (Some t) = Next u"
    by (simp add: authMiddleware_def)
next
  have "String_replace (''Bearer '' @ t) ''Bearer '' [] = [] @ t"
    by (rule String_replace_prefix) simp
  with ok show "authMiddleware verify (Some (''Bearer '' @ t)) = Next u"
    by (simp add: authMiddleware_def)
next
  fix a b :: string
  assume "\<forall>j<length a. \<not> prefix ''Bearer '' (drop j (a @ ''Bearer '' @ b))"
  then have "String_replace (a @ ''Bearer '' @ b) ''Bearer '' [] = a @ [] @ b"
    by (intro String_replace_first) simp_all
  then show "String_replace (a @ ''Bearer '' @ b) ''Bearer '' [] = a @ b" by simp
qed

text \<open>
  The example token is accepted bare and with the prefix; a doubled prefix loses only its
  first copy.
\<close>

theorem bearer_prefix_not_required_witness:
  "exampleVerify ''header.xxx.signature'' = Some 3
   \<and> (authMiddleware exampleVerify (Some ''header.xxx.signature'') :: (unit, nat) outcome) = Next 3
   \<and> (authMiddleware exampleVerify (Some ''Bearer header.xxx.signature'') :: (unit, nat) outcome) = Next 3
   \<and> String_replace ''Bearer Bearer header.xxx.signature'' ''Bearer '' [] = ''Bearer header.xxx.signature''"
proof -
  note t = bearer_prefix_not_required
    [of exampleVerify "''header.xxx.signature''" 3, OF exampleVerify_compact exampleVerify_3]
  from t have a: "(authMiddleware exampleVerify (Some ''header.xxx.signature'') :: (unit, nat) outcome) = Next 3"
    by blast
  from t have b: "(authMiddleware exampleVerify (Some (''Bearer '' @ ''header.xxx.signature'')) :: (unit, nat) outcome) = Next 3"
    by blast
  from t have "(\<forall>j<length ([]::string). \<not> prefix ''Bearer '' (drop j ([] @ ''Bearer '' @ ''Bearer header.xxx.signature''))) \<longrightarrow>
             String_replace ([] @ ''Bearer '' @ ''Bearer header.xxx.signature'') ''Bearer '' [] = [] @ ''Bearer header.xxx.signature''"
    by blast
  then have c: "String_replace ''Bearer Bearer header.xxx.signature'' ''Bearer '' [] = ''Bearer header.xxx.signature''"
    by simp
  show ?thesis using a b c exampleVerify_3 by simp
qed


section \<open>Pricing an order\<close>











section \<open>What a stored order looks like\<close>

text \<open>
  Claim C7, as the code has it. Every order that \<open>POST /orders\<close> accepts is appended to
  the orders and each of its items has a quantity of at least 1; the quantity is a
  Number and need not be whole. The items need not be there at all: for a clientId that
  resolves, a creation with an empty items list is accepted and stores an order without
  items and with total 0.
\<close>

theorem created_order_quantities:
  fixes products :: "('n::{zero,one,plus,times,ord}) product collection"
  shows
  "(\<forall>d orders'. orders_post castObjectId new_id now clients products orders b
                    = (Reply 201 (Json d), orders') \<longrightarrow>
       orders' = orders @ [d] \<and> list_all (\<lambda>x. 1 \<le> quantity x) (items (snd d)))
   \<and> (\<forall>s k. req_clientId b = Some s \<longrightarrow> castObjectId s = Some k \<longrightarrow> k \<in> fst ` set clients \<longrightarrow>
         req_items b = Some [] \<longrightarrow>
         orders_post castObjectId new_id now clients products orders b
           = (Reply 201 (Json (new_id, \<lparr>clientId = k, items = [], totalPrice = 0,
                                          status = pending, createdAt = now\<rparr>)),
              orders @ [(new_id, \<lparr>clientId = k, items = [], totalPrice = 0,
                                   status = pending, createdAt = now\<rparr>)]))"
proof (intro conjI allI impI)
  fix d orders'
  assume "orders_post castObjectId new_id now clients products orders b = (Reply 201 (Json d), orders')"
  from orders_post_created [OF this] obtain its t where
    "Order_save castObjectId new_id now orders (req_clientId b) (Some its) (Some t) = Inr (d, orders')"
    by blast
  from Order_save_result [OF this]
  show "orders' = orders @ [d]" and "list_all (\<lambda>x. 1 \<le> quantity x) (items (snd d))"
    by simp_all
next
  fix s k
  assume "req_clientId b = Some s" "castObjectId s = Some k" "k \<in> fst ` set clients"
    "req_items b = Some []"
  moreover from \<open>k \<in> fst ` set clients\<close> obtain c where "find (\<lambda>d. fst d = k) clients = Some c"
    using find_id_None_iff [of k clients] by (cases "find (\<lambda>d. fst d = k) clients") auto
  ultimately show "orders_post castObjectId new_id now clients products orders b
           = (Reply 201 (Json (new_id, \<lparr>clientId = k, items = [], totalPrice = 0,
                                          status = pending, createdAt = now\<rparr>)),
              orders @ [(new_id, \<lparr>clientId = k, items = [], totalPrice = 0,
                                   status = pending, createdAt = now\<rparr>)])"
    by (simp add: orders_post_def findById_def Order_save_def Let_def)
qed

text \<open>
  Two keyboards for the first seeded client are accepted, with a quantity of at least 1;
  an empty order for the second is accepted too.
\<close>

theorem created_order_quantities_witness:
  "orders_post castHex24 30 0 seededClients exampleProducts exampleOrders
      \<lparr>req_clientId = Some ''000000000000000000000001'',
       req_items = Some [\<lparr>productId = ''00000000000000000000000a'', quantity = 2\<rparr>],
       req_totalPrice = None\<rparr>
     = (Reply 201 (Json (30, \<lparr>clientId = 1, items = [\<lparr>productId = 10, quantity = 2\<rparr>],
                              totalPrice = 20, status = pending, createdAt = 0\<rparr>)),
        exampleOrders @ [(30, \<lparr>clientId = 1, items = [\<lparr>productId = 10, quantity = 2\<rparr>],
                              totalPrice = 20, status = pending, createdAt = 0\<rparr>)])
   \<and> list_all (\<lambda>x. 1 \<le> quantity x) [\<lparr>productId = 10 :: objectId, quantity = 2 :: rat\<rparr>]
   \<and> orders_post castHex24 31 5 seededClients exampleProducts exampleOrders
      \<lparr>req_clientId = Some ''000000000000000000000002'', req_items = Some [], req_totalPrice = None\<rparr>
     = (Reply 201 (Json (31, \<lparr>clientId = 2, items = [], totalPrice = 0, status = pending, createdAt = 5\<rparr>)),
        exampleOrders @ [(31, \<lparr>clientId = 2, items = [], totalPrice = 0, status = pending, createdAt = 5\<rparr>)])"
proof -
  let ?a = "\<lparr>productId = ''00000000000000000000000a'', quantity = 2 :: rat\<rparr>"
  let ?good = "\<lparr>req_clientId = Some ''000000000000000000000001'', req_items = Some [?a],
                req_totalPrice = None :: rat option\<rparr>"
  let ?doc = "(30 :: objectId, \<lparr>clientId = 1, items = [\<lparr>productId = 10, quantity = 2 :: rat\<rparr>],
                      totalPrice = 20, status = pending, createdAt = 0\<rparr>)"
  let ?empty = "\<lparr>req_clientId = Some ''000000000000000000000002'',
                 req_items = Some ([] :: (string, rat) item list), req_totalPrice = None :: rat option\<rparr>"
  have made: "orders_post castHex24 30 0 seededClients exampleProducts exampleOrders ?good
       = (Reply 201 (Json ?doc), exampleOrders @ [?doc])"
    by (simp add: orders_post_def findById_def cast_example_a cast_example_1
        seededClients_def exampleProducts_def Order_save_def Let_def)
  note t = created_order_quantities
    [of castHex24 30 0 seededClients exampleProducts exampleOrders ?good]
  note t1 = t [THEN conjunct1, rule_format, OF made]
  from t1 have q: "list_all (\<lambda>x. 1 \<le> quantity x) (items (snd ?doc))" by (rule conjunct2)
  have c1: "req_clientId ?empty = Some ''000000000000000000000002''" by simp
  have c2: "(2 :: objectId) \<in> fst ` set seededClients" by (simp add: seededClients_def)
  have c3: "req_items ?empty = Some []" by simp
  note u = created_order_quantities
    [of castHex24 31 5 seededClients exampleProducts exampleOrders ?empty]
  note u2 = u [THEN conjunct2, rule_format, OF c1 cast_example_2 c2 c3]
  show ?thesis using made q u2 by simp
qed

text \<open>
  The claim as stated has every stored order hold at least one item and every request
  with an empty items list rejected. The creation below has no items, is answered 201
  and is stored.
\<close>

theorem empty_order_accepted_counterexample:
  "orders_post castHex24 30 0 seededClients exampleProducts []
      \<lparr>req_clientId = Some ''000000000000000000000001'', req_items = Some [], req_totalPrice = None\<rparr>
     = (Reply 201 (Json (30, \<lparr>clientId = 1, items = [], totalPrice = 0, status = pending, createdAt = 0\<rparr>)),
        [(30, \<lparr>clientId = 1, items = [], totalPrice = 0 :: rat, status = pending, createdAt = 0\<rparr>)])"
  by (simp add: orders_post_def findById_def cast_example_1 seededClients_def Order_save_def Let_def)

text \<open>
  A quantity of one and a half passes the schema's \<open>min: 1\<close>.
\<close>

lemma orders_post_fractional_quantity:
  "orders_post castHex24 30 0 seededClients exampleProducts []
      \<lparr>req_clientId = Some ''000000000000000000000001'',
       req_items = Some [\<lparr>productId = ''00000000000000000000000a'', quantity = 3 / 2\<rparr>],
       req_totalPrice = None\<rparr>
     = (Reply 201 (Json (30, \<lparr>clientId = 1, items = [\<lparr>productId = 10, quantity = 3 / 2\<rparr>],
                              totalPrice = 15, status = pending, createdAt = 0\<rparr>)),
        [(30, \<lparr>clientId = 1, items = [\<lparr>productId = 10, quantity = 3 / 2\<rparr>],
               totalPrice = 15, status = pending, createdAt = 0\<rparr>)])"
  by (simp add: orders_post_def findById_def cast_example_a cast_example_1
        seededClients_def exampleProducts_def Order_save_def Let_def)

text \<open>
  The update goes through \<open>findByIdAndUpdate\<close>, which does not run the schema's
  validators: a quantity of 0 is stored.
\<close>

lemma orders_put_skips_validation:
  "orders_put castHex24 exampleProducts exampleOrders ''000000000000000000000014''
      \<lparr>req_clientId = None,
       req_items = Some [\<lparr>productId = ''00000000000000000000000a'', quantity = 0\<rparr>],
       req_totalPrice = None\<rparr>
     = (Reply 200 (Json (20, \<lparr>clientId = 1, items = [\<lparr>productId = 10, quantity = 0\<rparr>],
                              totalPrice = 0, status = pending, createdAt = 0\<rparr>)),
        [(20, \<lparr>clientId = 1, items = [\<lparr>productId = 10, quantity = 0\<rparr>],
               totalPrice = 0, status = pending, createdAt = 0\<rparr>)])"
  by (simp add: orders_put_def findById_def findByIdAndUpdate_def cast_example_a cast_example_14
      exampleProducts_def exampleOrders_def)

section \<open>Where the total comes from\<close>

text \<open>
  The pricing \<open>POST /orders\<close> never reads a \<open>totalPrice\<close> of the request body.
\<close>

lemma orders_post_ignores_body_total:
  "orders_post castObjectId new_id now clients products orders (b\<lparr>req_totalPrice := x\<rparr>)
     = orders_post castObjectId new_id now clients products orders b"
  by (simp add: orders_post_def split: sum.splits option.splits priced.splits)

text \<open>
  Claim C2. The claim wants the stored total always computed from the product lookups
  and a \<open>totalPrice\<close> of the body never used. The other copy of \<open>POST /orders\<close> does
  no lookup and stores the body's \<open>totalPrice\<close>: two keyboards at 10 each, sent with a
  total of 999, are stored with the total 999, where the sum over the items is 20.
\<close>

theorem orders_post_alt_stores_body_total:
  "orders_post_alt castHex24 30 0 seededClients []
      \<lparr>req_clientId = Some ''000000000000000000000001'',
       req_items = Some [\<lparr>productId = ''00000000000000000000000a'', quantity = 2\<rparr>],
       req_totalPrice = Some (999 :: rat)\<rparr>
     = (Reply 201 (Json (30, \<lparr>clientId = 1, items = [\<lparr>productId = 10, quantity = 2\<rparr>],
                              totalPrice = 999, status = pending, createdAt = 0\<rparr>)),
        [(30, \<lparr>clientId = 1, items = [\<lparr>productId = 10, quantity = 2\<rparr>],
               totalPrice = 999, status = pending, createdAt = 0\<rparr>)])
   \<and> sum_in_order castHex24 exampleProducts [\<lparr>productId = ''00000000000000000000000a'', quantity = 2\<rparr>]
     = (20 :: rat)"
  by (simp add: orders_post_alt_def findById_def cast_example_1 cast_example_a seededClients_def
      Order_save_def Let_def sum_in_order_def unit_price_def exampleProducts_def)

section \<open>Orders for a client that does not exist\<close>

text \<open>
  \<open>POST /orders\<close> refuses a well-formed clientId that matches no client and stores
  nothing.
\<close>

lemma orders_post_unknown_client:
  "req_clientId b = Some s \<Longrightarrow> castObjectId s = Some k \<Longrightarrow> k \<notin> fst ` set clients \<Longrightarrow>
     orders_post castObjectId new_id now clients products orders b
       = (Reply 400 (Message ''Invalid client ID''), orders)"
  using find_id_None_iff [of k clients] by (simp add: orders_post_def findById_def)

text \<open>
  Claim C3. The claim wants every creation for a clientId without a Client refused with
  nothing stored, on \<open>POST /orders\<close> and on \<open>POST /clients/:clientId/orders\<close> alike. The
  client-scoped route never looks the client up: with a valid token and an empty items
  list, an order for the well-formed id 9, which no seeded client carries, is answered
  201 and stored.
\<close>

theorem client_orders_post_unknown_client:
  "9 \<notin> fst ` set seededClients
   \<and> client_orders_post exampleVerify castHex24 30 0 exampleProducts []
        (Some ''Bearer header.xxx.signature'') ''000000000000000000000009''
        \<lparr>req_clientId = None, req_items = Some [], req_totalPrice = None\<rparr>
     = (Reply 201 (Json (30, \<lparr>clientId = 9, items = [], totalPrice = 0,
                              status = pending, createdAt = 0\<rparr>)),
        [(30, \<lparr>clientId = 9, items = [], totalPrice = 0, status = pending, createdAt = 0\<rparr>)])"
proof -
  have a: "(authMiddleware exampleVerify (Some ''Bearer header.xxx.signature'')
             :: (objectId \<times> rat order, nat) outcome) = Next 3"
    by (simp add: authMiddleware_def exampleVerify_3)
  show ?thesis
    by (simp add: client_orders_post_def a cast_example_9 seededClients_def Order_save_def Let_def)
qed

text \<open>
  With items in the list the same route stores nothing either way: the bare \<open>findById\<close>
  throws on the first item and the request is answered 400.
\<close>

lemma client_orders_post_items_throw:
  fixes orders :: "('n::{zero,one,plus,times,ord}) order collection"
  assumes "(authMiddleware verify header :: (objectId \<times> 'n order, 'u) outcome) = Next u"
    and "req_items b = Some (x # xs)"
  shows "client_orders_post verify castObjectId new_id now products orders header cid b
           = (Reply 400 (MessageError ''Error creating order'' MongooseError), orders)"
  using assms by (simp add: client_orders_post_def bare_findById_def)

section \<open>Listing clients\<close>

text \<open>
  Claim C4, as the code has it. Take a list query whose filters, if any, are regular
  expressions, and whose page and limit, after the defaults 1 and 10 for absent
  parameters, are integers of at least 1. The response is 200 and reports the number of
  matching clients as the total, echoes page and limit, returns the matching clients from
  offset \<open>(page - 1) * limit\<close> on, at most \<open>limit\<close> of them, and reports the ceiling of
  total over limit as the number of pages.
\<close>

theorem clients_get_page:
  assumes pg: "page_of q = Some p" and p1: "1 \<le> p"
    and lm: "limit_of q = Some l" and l1: "1 \<le> l"
    and fn: "field_filter RegExp_i (q_name q) = Inr byName"
    and fe: "field_filter RegExp_i (q_email q) = Inr byEmail"
    and m: "matching = filter (\<lambda>c. byName (name (snd c)) \<and> byEmail (email (snd c))) clients"
  shows "clients_get RegExp_i clients q
           = Reply 200 (Json \<lparr>r_total = length matching, r_page = Some p, r_limit = Some l,
                              r_totalPages = Num \<lceil>rat_of_nat (length matching) / rat_of_int l\<rceil>,
                              r_data = take (nat l) (drop (nat ((p - 1) * l)) matching)\<rparr>)
       \<and> length (take (nat l) (drop (nat ((p - 1) * l)) matching)) \<le> nat l
       \<and> (q_page q = None \<longrightarrow> p = 1)
       \<and> (q_limit q = None \<longrightarrow> l = 10)"
proof (intro conjI impI)
  from p1 l1 have "\<not> (p - 1) * l < 0" by (simp add: not_less)
  moreover from l1 have "l \<noteq> 0" "\<bar>l\<bar> = l" by simp_all
  ultimately have "skip_limit (skip_of (Some p) (Some l)) (Some l) matching
      = Inr (take (nat l) (drop (nat ((p - 1) * l)) matching))"
    by (simp add: skip_limit_def skip_of_def)
  moreover from l1 have "Math_ceil_div (length matching) (Some l)
      = Num \<lceil>rat_of_nat (length matching) / rat_of_int l\<rceil>"
    by (simp add: Math_ceil_div_def)
  ultimately show "clients_get RegExp_i clients q
           = Reply 200 (Json \<lparr>r_total = length matching, r_page = Some p, r_limit = Some l,
                              r_totalPages = Num \<lceil>rat_of_nat (length matching) / rat_of_int l\<rceil>,
                              r_data = take (nat l) (drop (nat ((p - 1) * l)) matching)\<rparr>)"
    using pg lm fn fe m by (simp add: clients_get_def Let_def)
next
  show "length (take (nat l) (drop (nat ((p - 1) * l)) matching)) \<le> nat l" by simp
next
  assume "q_page q = None"
  with pg show "p = 1" by (simp add: page_of_def)
next
  assume "q_limit q = None"
  with lm show "l = 10" by (simp add: limit_of_def)
qed

text \<open>
  The seeded clients: page 2 with limit 1 returns exactly one client, with total 3 and 3
  pages; a query without parameters returns all three on page 1 of 1 with limit 10.
\<close>

theorem clients_get_page_witness:
  "clients_get (\<lambda>pat. None) seededClients
      \<lparr>q_page = Some (Some 2), q_limit = Some (Some 1), q_name = None, q_email = None\<rparr>
     = Reply 200 (Json \<lparr>r_total = 3, r_page = Some 2, r_limit = Some 1, r_totalPages = Num 3,
                        r_data = [(2, \<lparr>name = ''Jane Smith'', email = ''jane@example.com''\<rparr>)]\<rparr>)
   \<and> clients_get (\<lambda>pat. None) seededClients
      \<lparr>q_page = None, q_limit = None, q_name = None, q_email = None\<rparr>
     = Reply 200 (Json \<lparr>r_total = 3, r_page = Some 1, r_limit = Some 10, r_totalPages = Num 1,
                        r_data = seededClients\<rparr>)"
proof -
  let ?q = "\<lparr>q_page = Some (Some 2), q_limit = Some (Some 1), q_name = None, q_email = None\<rparr>"
  let ?d = "\<lparr>q_page = None, q_limit = None, q_name = None, q_email = None\<rparr>"
  let ?R = "\<lambda>pat :: string. None :: (string \<Rightarrow> bool) option"
  have f: "field_filter ?R (q_name ?q) = Inr (\<lambda>s. True)"
    "field_filter ?R (q_email ?q) = Inr (\<lambda>s. True)"
    by (simp_all add: field_filter_def)
  have g: "field_filter ?R (q_name ?d) = Inr (\<lambda>s. True)"
    "field_filter ?R (q_email ?d) = Inr (\<lambda>s. True)"
    by (simp_all add: field_filter_def)
  have m: "seededClients = filter (\<lambda>c. (\<lambda>s. True) (name (snd c)) \<and> (\<lambda>s. True) (email (snd c))) seededClients"
    by simp
  have a: "page_of ?q = Some 2" "limit_of ?q = Some 1" by (simp_all add: page_of_def limit_of_def)
  have b: "page_of ?d = Some 1" "limit_of ?d = Some 10" by (simp_all add: page_of_def limit_of_def)
  note t = clients_get_page [OF a(1) _ a(2) _ f(1) f(2) m]
  note u = clients_get_page [OF b(1) _ b(2) _ g(1) g(2) m]
  have t': "clients_get ?R seededClients ?q
     = Reply 200 (Json \<lparr>r_total = length seededClients, r_page = Some 2, r_limit = Some 1,
          r_totalPages = Num \<lceil>rat_of_nat (length seededClients) / rat_of_int 1\<rceil>,
          r_data = take (nat 1) (drop (nat ((2 - 1) * 1)) seededClients)\<rparr>)"
    using t by simp
  have u': "clients_get ?R seededClients ?d
     = Reply 200 (Json \<lparr>r_total = length seededClients, r_page = Some 1, r_limit = Some 10,
          r_totalPages = Num \<lceil>rat_of_nat (length seededClients) / rat_of_int 10\<rceil>,
          r_data = take (nat 10) (drop (nat ((1 - 1) * 10)) seededClients)\<rparr>)"
    using u by simp
  have len: "length seededClients = 3" by (simp add: seededClients_def)
  have c1: "\<lceil>rat_of_nat 3 / rat_of_int 1\<rceil> = 3" by simp
  have c2: "\<lceil>rat_of_nat 3 / rat_of_int 10\<rceil> = 1" by (simp add: ceiling_eq_iff)
  have d1: "take (nat 1) (drop (nat ((2 - 1) * 1)) seededClients)
             = [(2, \<lparr>name = ''Jane Smith'', email = ''jane@example.com''\<rparr>)]"
    by (simp add: seededClients_def)
  have d2: "take (nat 10) (drop (nat ((1 - 1) * 10)) seededClients) = seededClients"
    by (simp add: len)
  show ?thesis
    unfolding t' u' len c1 c2 d1 d2 by simp
qed

text \<open>
  The claim as stated bounds the length of the slice by the limit for every query. With
  \<open>limit=0\<close> the cursor applies no limit: all three seeded clients come back, and the
  number of pages is Infinity.
\<close>

theorem clients_get_limit_zero_counterexample:
  "clients_get (\<lambda>pat. None) seededClients
      \<lparr>q_page = None, q_limit = Some (Some 0), q_name = None, q_email = None\<rparr>
     = Reply 200 (Json \<lparr>r_total = 3, r_page = Some 1, r_limit = Some 0, r_totalPages = Infinity,
                        r_data = seededClients\<rparr>)
   \<and> \<not> int (length seededClients) \<le> 0"
  by (simp add: clients_get_def page_of_def limit_of_def field_filter_def skip_of_def
      skip_limit_def Math_ceil_div_def seededClients_def)

section \<open>Registration, then login\<close>

text \<open>
  No registration stores a user and no login returns a token: a request that passes the
  validation reaches the bare \<open>findOne\<close> and is answered 500.
\<close>

lemma auth_register_stores_nothing:
  "snd (auth_register isEmail hash new_id users b) = users"
  by (simp add: auth_register_def bare_findOne_def)

lemma auth_register_valid_body:
  "register_errors isEmail b = [] \<Longrightarrow>
     auth_register isEmail hash new_id users b
       = (Reply 500 (MessageError ''Server error'' MongooseError), users)"
  by (simp add: auth_register_def bare_findOne_def)

lemma auth_login_valid_body:
  "login_errors isEmail b = [] \<Longrightarrow>
     auth_login isEmail compare sign users b = Reply 500 (MessageError ''Server error'' MongooseError)"
  by (simp add: auth_login_def bare_findOne_def)

lemma auth_login_no_token: "auth_login isEmail compare sign users b \<noteq> Reply 200 (Json t)"
  by (simp add: auth_login_def bare_findOne_def)

text \<open>
  Claim C6. The claim wants a registration with email \<open>e\<close> followed by a login with \<open>e\<close>
  and the right password to return a token for the user's id, and a login with a wrong
  password to end in the credentials failure. Ann registers with a well-formed body: the
  answer is 500 "Server error" and no user is stored. Her login is answered 500 too, on
  the empty store and on a store that holds her with the hash of her password; so is a
  login with a wrong password.
\<close>

theorem register_then_login_server_error:
  "auth_register exampleIsEmail exampleHash 7 []
      \<lparr>reg_name = ''Ann'', reg_email = ''ann@example.com'', reg_password = ''secret1''\<rparr>
     = (Reply 500 (MessageError ''Server error'' MongooseError), [])
   \<and> auth_login exampleIsEmail exampleCompare exampleSign []
      \<lparr>login_email = ''ann@example.com'', login_password = ''secret1''\<rparr>
     = Reply 500 (MessageError ''Server error'' MongooseError)
   \<and> exampleCompare ''secret1'' (exampleHash ''secret1'')
   \<and> auth_login exampleIsEmail exampleCompare exampleSign
      [(7, \<lparr>user_name = ''Ann'', user_email = ''ann@example.com'',
             user_password = exampleHash ''secret1''\<rparr>)]
      \<lparr>login_email = ''ann@example.com'', login_password = ''secret1''\<rparr>
     = Reply 500 (MessageError ''Server error'' MongooseError)
   \<and> auth_login exampleIsEmail exampleCompare exampleSign
      [(7, \<lparr>user_name = ''Ann'', user_email = ''ann@example.com'',
             user_password = exampleHash ''secret1''\<rparr>)]
      \<lparr>login_email = ''ann@example.com'', login_password = ''secret2''\<rparr>
     = Reply 500 (MessageError ''Server error'' MongooseError)"
  by (simp add: auth_register_def auth_login_def register_errors_def login_errors_def
      bare_findOne_def exampleIsEmail_def exampleCompare_def)

end
